theory Spec2Isabelle
  imports Main
begin

section \<open>The settings window of OpenAirplay (\<^verbatim>\<open>openairplay/gui_main.py\<close>)\<close>

text \<open>
  The class \<^verbatim>\<open>Window\<close> is embedded as a record of the attributes its methods read and
  write, and every method as a function from the state before the call to the state after
  it. A method that can raise returns an outcome next to the state, since in Python the
  assignments made before a \<^verbatim>\<open>raise\<close> stay. What a method does to the outside (the
  log, standard output, the settings backend, the event loop) is appended to a trace, in
  program order.
\<close>

subsection \<open>Data\<close>

text \<open>
  \<^verbatim>\<open>AirplayReceiver\<close> is declared in \<^verbatim>\<open>receiver_device.py\<close>; the window reads its
  attributes \<^verbatim>\<open>name\<close> and \<^verbatim>\<open>list_entry_name\<close> only. \<open>ident\<close> stands for the identity
  of the Python object (the advertised service instance).
\<close>

record AirplayReceiver =
  ident :: nat
  name :: string
  list_entry_name :: string

text \<open>
  A \<^verbatim>\<open>QListWidgetItem\<close>: its displayed text and the value stored under
  \<^verbatim>\<open>Qt.ItemDataRole.UserRole\<close> (\<open>None\<close> when nothing was stored).
\<close>

record QListWidgetItem =
  item_text :: string
  item_data :: "AirplayReceiver option"

datatype OpenAirPlayMirroringClient =
  OpenAirPlayMirroringClient (target_device: "AirplayReceiver option")

text \<open>What \<^verbatim>\<open>asyncio.ensure_future\<close> is given: a coroutine that has not started.\<close>

datatype task =
  MirroringClientStart OpenAirPlayMirroringClient
| ServiceListenerQuit

datatype level = DEBUG | INFO | WARN | ERROR

datatype effect =
  Log level string
| Print string
| SettingsValue string
| SettingsSetValue string bool
| EnsureFuture task
| LoopStop

datatype exn =
  NotImplementedError string
| AttributeError
| RuntimeError
| SystemExit int

datatype outcome = Returned | Raised exn

text \<open>
  \<open>settings\<close> is the attribute \<^verbatim>\<open>self.settings\<close>: \<open>None\<close> once \<^verbatim>\<open>del self.settings\<close>
  has run, otherwise the persisted keys. \<open>service_listener\<close> is \<open>None\<close> when the
  constructor could not create the listener, otherwise whether its \<^verbatim>\<open>start()\<close> was
  called. \<open>event_loop\<close> says whether \<^verbatim>\<open>asyncio\<close> has a current event loop, and
  \<open>loop_running\<close> whether it runs. \<open>pending\<close> holds the tasks given to the event loop by
  \<^verbatim>\<open>ensure_future\<close>: the loop runs them after the method that scheduled them has
  returned, so none of them starts within a method of the window.
\<close>

record Window =
  settings :: "(string \<rightharpoonup> bool) option"
  showIconCheckBox :: bool
  systrayClosePromptCheckBox :: bool
  trayIcon_visible :: bool
  deviceSelectList :: "QListWidgetItem list"
  service_listener :: "bool option"
  active_mirroring_client :: "OpenAirPlayMirroringClient option"
  active_mirroring :: "task option"
  pending :: "task list"
  event_loop :: bool
  loop_running :: bool
  loop_stop_requested :: bool
  trace :: "effect list"

definition AIRPLAY_NO_DISPLAY_NAME :: string where
  "AIRPLAY_NO_DISPLAY_NAME = ''No display.''"

subsection \<open>Helpers for the library calls\<close>

definition emit :: "effect list \<Rightarrow> Window \<Rightarrow> Window" where
  "emit es w = w\<lparr>trace := trace w @ es\<rparr>"

text \<open>\<^verbatim>\<open>QSettings.value(key, type=bool)\<close>: a key that was never written reads as False.\<close>

definition value_bool :: "(string \<rightharpoonup> bool) \<Rightarrow> string \<Rightarrow> bool" where
  "value_bool s key = (case s key of None \<Rightarrow> False | Some b \<Rightarrow> b)"

text \<open>Python's \<^verbatim>\<open>str\<close> of a bool.\<close>

definition str_bool :: "bool \<Rightarrow> string" where
  "str_bool b = (if b then ''True'' else ''False'')"

text \<open>
  \<^verbatim>\<open>asyncio.ensure_future(coro)\<close> wraps the coroutine in a task and queues it on the
  current event loop; the coroutine's body does not run during the call. Without a current
  event loop it raises \<^verbatim>\<open>RuntimeError\<close> and queues nothing.
\<close>

definition ensure_future :: "task \<Rightarrow> Window \<Rightarrow> outcome \<times> Window" where
  "ensure_future t w =
     (if event_loop w then
        (Returned, w\<lparr>pending := pending w @ [t], trace := trace w @ [EnsureFuture t]\<rparr>)
      else (Raised RuntimeError, w))"

text \<open>
  \<^verbatim>\<open>QListWidget.findItems(text, MatchExactly)\<close>: the items whose text equals the given
  one, in list order.
\<close>

definition findItems :: "string \<Rightarrow> QListWidgetItem list \<Rightarrow> QListWidgetItem list" where
  "findItems s l = filter (\<lambda>x. item_text x = s) l"

text \<open>
  \<^verbatim>\<open>QListWidget.row(item)\<close>: the row of the item, \<open>-1\<close> when the list does not hold it.
  Items are compared by value here; two items of equal text and data cannot be told apart
  in the list that results from taking either of them.
\<close>

fun row :: "QListWidgetItem \<Rightarrow> QListWidgetItem list \<Rightarrow> int" where
  "row x [] = -1"
| "row x (y # ys) =
     (if x = y then 0 else (let r = row x ys in if r < 0 then -1 else r + 1))"

text \<open>\<^verbatim>\<open>QListWidget.takeItem(row)\<close>: removes the item of that row; no item, no change.\<close>

definition takeItem :: "int \<Rightarrow> QListWidgetItem list \<Rightarrow> QListWidgetItem list" where
  "takeItem i l =
     (if 0 \<le> i \<and> i < int (length l) then take (nat i) l @ drop (Suc (nat i)) l else l)"

text \<open>\<^verbatim>\<open>QListWidget.item(row)\<close>: \<open>None\<close> when the row is out of range.\<close>

definition item :: "QListWidgetItem list \<Rightarrow> nat \<Rightarrow> QListWidgetItem option" where
  "item l i = (if i < length l then Some (l ! i) else None)"

subsection \<open>Discovery events\<close>

definition add_receiver :: "AirplayReceiver \<Rightarrow> Window \<Rightarrow> Window" where
  "add_receiver receiver w =
     (let w1 = emit [Log DEBUG (''Adding receiver to UI: '' @ list_entry_name receiver)] w;
          it = \<lparr>item_text = list_entry_name receiver, item_data = Some receiver\<rparr>;
          w2 = w1\<lparr>deviceSelectList := deviceSelectList w1 @ [it]\<rparr>
      in emit [Log DEBUG (''Added receiver to deviceSelectList: '' @ [CHR 39] @ name receiver @ [CHR 39])] w2)"

text \<open>One turn of the loop \<^verbatim>\<open>for x in items\<close> of \<^verbatim>\<open>remove_receiver\<close>.\<close>

definition remove_step :: "AirplayReceiver \<Rightarrow> QListWidgetItem \<Rightarrow> Window \<Rightarrow> Window" where
  "remove_step receiver x w =
     emit [Log DEBUG (''Removed receiver from deviceSelectList: '' @ [CHR 39] @ name receiver @ [CHR 39])]
       (w\<lparr>deviceSelectList := takeItem (row x (deviceSelectList w)) (deviceSelectList w)\<rparr>)"

definition remove_receiver :: "AirplayReceiver \<Rightarrow> Window \<Rightarrow> Window" where
  "remove_receiver receiver w =
     (let item_name = list_entry_name receiver;
          items = findItems item_name (deviceSelectList w)
      in fold (remove_step receiver) items w)"




subsection \<open>Starting to mirror\<close>

text \<open>
  \<open>selected\<close> is what \<^verbatim>\<open>[x.row() for x in self.deviceSelectList.selectedIndexes()]\<close>
  evaluates to when the method is called: the selection is the widget's, handed in by the
  caller. \<^verbatim>\<open>item(row)\<close> of a row the list does not have is \<^verbatim>\<open>None\<close>, whose
  \<^verbatim>\<open>.text()\<close> raises \<^verbatim>\<open>AttributeError\<close>.
\<close>

definition start_mirroring_to_selection :: "nat list \<Rightarrow> Window \<Rightarrow> outcome \<times> Window" where
  "start_mirroring_to_selection selected w =
     (if length selected > 1 then
        (Raised (NotImplementedError ''Cannot mirror to more than one display.''),
         emit [Log ERROR ''Mirroring to more than one display not supported''] w)
      else if selected = [] then
        (Returned, emit [Log WARN ''Select a device to mirror to.''] w)
      else
        (case item (deviceSelectList w) (hd selected) of
           None \<Rightarrow> (Raised AttributeError, w)
         | Some it \<Rightarrow>
             (let target_device_name = item_text it in
              if target_device_name = AIRPLAY_NO_DISPLAY_NAME then
                (Returned, emit [Log WARN ''TODO: no display -> stop''] w)
              else
                (let target_device = item_data it;
                     w1 = emit [Log INFO (''Starting mirroring to '' @ target_device_name @ '' ...'')] w;
                     client = OpenAirPlayMirroringClient target_device;
                     w2 = w1\<lparr>active_mirroring_client := Some client\<rparr>;
                     t = MirroringClientStart client
                 in (case ensure_future t w2 of
                       (Raised e, w3) \<Rightarrow> (Raised e, w3)
                     | (Returned, w3) \<Rightarrow> (Returned, w3\<lparr>active_mirroring := Some t\<rparr>))))))"

subsection \<open>Preferences\<close>

definition setSystrayClosePrompt :: "bool \<Rightarrow> Window \<Rightarrow> outcome \<times> Window" where
  "setSystrayClosePrompt preference w =
     (let w1 = emit [Print (''Prompt on close is now '' @ str_bool preference)] w in
      case settings w1 of
        None \<Rightarrow> (Raised AttributeError, w1)
      | Some s \<Rightarrow>
          (Returned,
           emit [SettingsSetValue ''promptOnClose_systray'' preference]
             (w1\<lparr>settings := Some (s(''promptOnClose_systray'' \<mapsto> preference))\<rparr>)))"

definition trayIconVisible :: "bool \<Rightarrow> Window \<Rightarrow> outcome \<times> Window" where
  "trayIconVisible preference w =
     (let w1 = w\<lparr>trayIcon_visible := preference\<rparr> in
      case settings w1 of
        None \<Rightarrow> (Raised AttributeError, w1)
      | Some s \<Rightarrow>
          (Returned,
           emit [SettingsSetValue ''systrayicon'' preference]
             (w1\<lparr>settings := Some (s(''systrayicon'' \<mapsto> preference))\<rparr>)))"

text \<open>
  \<^verbatim>\<open>createIconGroupBox\<close>. Each check box is made anew, unchecked, before the settings
  are read for it; reading through a settings attribute that is not there raises
  \<^verbatim>\<open>AttributeError\<close>.
\<close>

definition createIconGroupBox :: "Window \<Rightarrow> outcome \<times> Window" where
  "createIconGroupBox w =
     (let w0 = w\<lparr>showIconCheckBox := False\<rparr> in
      case settings w0 of
        None \<Rightarrow> (Raised AttributeError, w0)
      | Some s \<Rightarrow>
          (let w1 = emit [SettingsValue ''systrayicon'']
                      (w0\<lparr>showIconCheckBox := value_bool s ''systrayicon''\<rparr>);
               w2 = emit [SettingsValue ''systrayicon'',
                          Print (''Got systrayicon from settings:'' @ str_bool (value_bool s ''systrayicon''))] w1;
               w3 = emit [SettingsValue ''promptOnClose_systray'']
                      (w2\<lparr>systrayClosePromptCheckBox := value_bool s ''promptOnClose_systray''\<rparr>);
               w4 = emit [SettingsValue ''promptOnClose_systray'',
                          Print (''Got promptOnClose_systray from settings:'' @ str_bool (value_bool s ''promptOnClose_systray''))] w3
           in (Returned, w4)))"

definition createDeviceListGroupBox :: "Window \<Rightarrow> Window" where
  "createDeviceListGroupBox w =
     w\<lparr>deviceSelectList := [\<lparr>item_text = AIRPLAY_NO_DISPLAY_NAME, item_data = None\<rparr>]\<rparr>"

subsection \<open>Construction and shutdown\<close>

definition and_then :: "outcome \<times> Window \<Rightarrow> (Window \<Rightarrow> outcome \<times> Window) \<Rightarrow> outcome \<times> Window" where
  "and_then r f = (case r of (Returned, w) \<Rightarrow> f w | (Raised e, w) \<Rightarrow> (Raised e, w))"

text \<open>
  The attributes before \<^verbatim>\<open>__init__\<close> has set anything but \<^verbatim>\<open>self.settings\<close>;
  \<open>has_loop\<close> says whether a current event loop was set before the window is made, as
  \<^verbatim>\<open>__main__\<close> does.
\<close>

definition blank :: "(string \<rightharpoonup> bool) \<Rightarrow> bool \<Rightarrow> Window" where
  "blank store has_loop =
     \<lparr>settings = Some store, showIconCheckBox = False, systrayClosePromptCheckBox = False,
      trayIcon_visible = False, deviceSelectList = [], service_listener = None,
      active_mirroring_client = None, active_mirroring = None, pending = [],
      event_loop = has_loop, loop_running = False, loop_stop_requested = False, trace = []\<rparr>"

text \<open>
  \<^verbatim>\<open>Window.__init__\<close>, the statements that touch the attributes above, in their order.
  \<open>store\<close> is what the settings backend holds; \<open>loop\<close> is what
  \<^verbatim>\<open>asyncio.get_event_loop()\<close> gives: \<open>Inr\<close> the loop as it prints, \<open>Inl\<close> the message of
  the \<^verbatim>\<open>RuntimeError\<close> the constructor catches when there is no current event
  loop. The layout, the icons and the
  notification test form carry no state of the record and are left out.
\<close>

definition Window_init :: "(string \<rightharpoonup> bool) \<Rightarrow> string + string \<Rightarrow> outcome \<times> Window" where
  "Window_init store loop =
     and_then (createIconGroupBox (blank store (case loop of Inr r \<Rightarrow> True | Inl e \<Rightarrow> False))) (\<lambda>w1.
       let w2 = createDeviceListGroupBox w1;
           w3 = w2\<lparr>trayIcon_visible := True\<rparr>
       in
       and_then
         (case settings w3 of
            None \<Rightarrow> (Raised AttributeError, w3)
          | Some s \<Rightarrow>
              (let w4 = emit [SettingsValue ''systrayicon''] w3 in
               if value_bool s ''systrayicon'' = False then
                 trayIconVisible False
                   (emit [Log INFO ''The user chose not to show the system tray icon.''] w4)
               else (Returned, w4)))
         (\<lambda>w5.
            let w6 = emit [Log DEBUG ''Starting discovery service...''] w5 in
            (Returned,
             (case loop of
                Inr r \<Rightarrow>
                  (emit [Log DEBUG (''Event loop running: '' @ r)] w6)\<lparr>service_listener := Some True\<rparr>
              | Inl e \<Rightarrow>
                  emit [Log ERROR (''Failed to get running event loop: '' @ e)] w6))))"

text \<open>\<^verbatim>\<open>loop.run_forever()\<close> of \<^verbatim>\<open>__main__\<close> is entered: from then on handlers run.\<close>

definition run_forever :: "Window \<Rightarrow> Window" where
  "run_forever w = w\<lparr>loop_running := True\<rparr>"

text \<open>
  \<^verbatim>\<open>Window.quit\<close>. \<^verbatim>\<open>del\<close> of an attribute that is not there and a method call on one
  that was never set raise \<^verbatim>\<open>AttributeError\<close>; \<^verbatim>\<open>ensure_future\<close> raises without a
  current event loop and \<^verbatim>\<open>asyncio.get_running_loop()\<close> outside a running one, both
  \<^verbatim>\<open>RuntimeError\<close>; \<^verbatim>\<open>sys.exit\<close> raises \<^verbatim>\<open>SystemExit\<close>.
\<close>

definition quit :: "int \<Rightarrow> Window \<Rightarrow> outcome \<times> Window" where
  "quit reason w =
     (case settings w of
        None \<Rightarrow> (Raised AttributeError, w)
      | Some s \<Rightarrow>
          (let w1 = w\<lparr>settings := None\<rparr> in
           case service_listener w1 of
             None \<Rightarrow> (Raised AttributeError, w1)
           | Some started \<Rightarrow>
               (case ensure_future ServiceListenerQuit w1 of
                  (Raised e, w2) \<Rightarrow> (Raised e, w2)
                | (Returned, w2) \<Rightarrow>
                    if \<not> loop_running w2 then (Raised RuntimeError, w2)
                    else
                      (let w3 = (emit [LoopStop] w2)\<lparr>loop_stop_requested := True\<rparr>
                       in (Raised (SystemExit reason), w3)))))"

subsection \<open>Notions the properties below are stated with\<close>

text \<open>The item that \<^verbatim>\<open>add_receiver\<close> makes for a receiver.\<close>

definition entry :: "AirplayReceiver \<Rightarrow> QListWidgetItem" where
  "entry r = \<lparr>item_text = list_entry_name r, item_data = Some r\<rparr>"

definition sentinel :: QListWidgetItem where
  "sentinel = \<lparr>item_text = AIRPLAY_NO_DISPLAY_NAME, item_data = None\<rparr>"

text \<open>
  Every item that carries a receiver displays that receiver's \<^verbatim>\<open>list_entry_name\<close>: so
  it is after construction, and \<^verbatim>\<open>add_receiver\<close> and \<^verbatim>\<open>remove_receiver\<close> keep it.
\<close>

definition entries_named :: "QListWidgetItem list \<Rightarrow> bool" where
  "entries_named l = list_all (\<lambda>x. case item_data x of None \<Rightarrow> True | Some r \<Rightarrow> item_text x = list_entry_name r) l"

text \<open>
  A mirroring session exists when a client has been made and its \<^verbatim>\<open>start()\<close> given to
  the event loop; the window keeps no other record of a session's state.
\<close>

definition session_exists :: "Window \<Rightarrow> bool" where
  "session_exists w = (active_mirroring_client w \<noteq> None)"


text \<open>How often a settings key was read along a trace.\<close>

definition reads :: "string \<Rightarrow> effect list \<Rightarrow> nat" where
  "reads key tr = length (filter (\<lambda>e. e = SettingsValue key) tr)"

subsection \<open>Concrete states\<close>

definition living_room :: AirplayReceiver where
  "living_room = \<lparr>ident = 1, name = ''Living Room'', list_entry_name = ''Living Room''\<rparr>"

definition bedroom :: AirplayReceiver where
  "bedroom = \<lparr>ident = 2, name = ''Bedroom'', list_entry_name = ''Bedroom''\<rparr>"

text \<open>A second device that advertises the display name of the first.\<close>

definition living_room_twin :: AirplayReceiver where
  "living_room_twin = \<lparr>ident = 3, name = ''Living Room (2)'', list_entry_name = ''Living Room''\<rparr>"

text \<open>A device whose display name is the text of the first list entry.\<close>

definition no_display_tv :: AirplayReceiver where
  "no_display_tv = \<lparr>ident = 4, name = ''No display.'', list_entry_name = ''No display.''\<rparr>"

definition store0 :: "string \<rightharpoonup> bool" where
  "store0 = [''systrayicon'' \<mapsto> True, ''promptOnClose_systray'' \<mapsto> True]"

text \<open>The window once constructed, with the loop running and two receivers discovered.\<close>

definition started_window :: Window where
  "started_window =
     add_receiver bedroom (add_receiver living_room
       (run_forever (snd (Window_init store0 (Inr ''<QEventLoop>'')))))"

text \<open>The same after the user selected row 1 and pressed the button.\<close>

definition mirroring_window :: Window where
  "mirroring_window = snd (start_mirroring_to_selection [1] started_window)"

text \<open>A window made without a current event loop, one receiver discovered.\<close>

definition loopless_window :: Window where
  "loopless_window =
     add_receiver living_room (snd (Window_init store0 (Inl ''There is no current event loop'')))"

section \<open>Properties\<close>

subsection \<open>Taking items from the list\<close>

lemma row_absent: "x \<notin> set l \<Longrightarrow> row x l = - 1"
  by (induction l) (auto simp: Let_def)

lemma row_present: "x \<in> set l \<Longrightarrow> 0 \<le> row x l"
  by (induction l) (auto simp: Let_def)

lemma takeItem_Cons_Suc:
  "0 \<le> r \<Longrightarrow> takeItem (r + 1) (y # ys) = y # takeItem r ys"
  by (auto simp: takeItem_def nat_add_distrib)

lemma takeItem_row: "takeItem (row x l) l = remove1 x l"
proof (induction l)
  case Nil
  show ?case by (simp add: takeItem_def)
next
  case (Cons y ys)
  show ?case
  proof (cases "x = y")
    case True
    then show ?thesis by (simp add: takeItem_def)
  next
    case False
    show ?thesis
    proof (cases "x \<in> set ys")
      case True
      then have "0 \<le> row x ys" by (rule row_present)
      with False Cons show ?thesis by (simp add: Let_def takeItem_Cons_Suc)
    next
      case absent: False
      with False have "row x (y # ys) = - 1" by (simp add: row_absent)
      moreover from absent False have "remove1 x (y # ys) = y # ys" by (simp add: remove1_idem)
      ultimately show ?thesis by (simp add: takeItem_def)
    qed
  qed
qed

lemma fold_remove1_filter:
  "\<forall>x \<in> set pre. \<not> P x \<Longrightarrow>
   fold remove1 (filter P l) (pre @ l) = pre @ filter (\<lambda>x. \<not> P x) l"
proof (induction l arbitrary: pre)
  case Nil
  show ?case by simp
next
  case (Cons y ys)
  show ?case
  proof (cases "P y")
    case True
    with Cons.prems have "y \<notin> set pre" by auto
    then have "remove1 y (pre @ y # ys) = pre @ ys" by (simp add: remove1_append)
    with True Cons.IH [OF Cons.prems] show ?thesis by simp
  next
    case False
    with Cons.prems have "\<forall>x \<in> set (pre @ [y]). \<not> P x" by simp
    from Cons.IH [OF this] False show ?thesis by simp
  qed
qed

lemma fold_remove_step_list:
  "deviceSelectList (fold (remove_step r) xs w) = fold remove1 xs (deviceSelectList w)"
  by (induction xs arbitrary: w) (simp_all add: remove_step_def emit_def takeItem_row)

lemma remove_receiver_list:
  "deviceSelectList (remove_receiver r w) =
   filter (\<lambda>x. item_text x \<noteq> list_entry_name r) (deviceSelectList w)"
  using fold_remove1_filter [of "[]" "\<lambda>x. item_text x = list_entry_name r" "deviceSelectList w"]
  by (simp add: remove_receiver_def findItems_def fold_remove_step_list)

lemma add_receiver_list:
  "deviceSelectList (add_receiver r w) = deviceSelectList w @ [entry r]"
  by (simp add: add_receiver_def emit_def entry_def Let_def)

lemma fold_remove_step_trace:
  "trace (fold (remove_step r) xs w) =
   trace w @ replicate (length xs)
     (Log DEBUG (''Removed receiver from deviceSelectList: '' @ [CHR 39] @ name r @ [CHR 39]))"
  by (induction xs arbitrary: w) (simp_all add: remove_step_def emit_def replicate_app_Cons_same)


subsection \<open>The list after construction and after discovery events\<close>


lemma Window_init_list: "deviceSelectList (snd (Window_init store loop)) = [sentinel]"
  by (simp add: Window_init_def and_then_def createIconGroupBox_def blank_def emit_def
      createDeviceListGroupBox_def trayIconVisible_def sentinel_def Let_def split: sum.split)


lemma entries_named_add: "entries_named l \<Longrightarrow> entries_named (l @ [entry r])"
  by (simp add: entries_named_def entry_def)

lemma entries_named_filter: "entries_named l \<Longrightarrow> entries_named (filter P l)"
  by (induction l) (simp_all add: entries_named_def)

lemma entries_named_data:
  "entries_named l \<Longrightarrow> x \<in> set l \<Longrightarrow> item_data x = Some r \<Longrightarrow> item_text x = list_entry_name r"
  by (auto simp: entries_named_def list_all_iff split: option.splits)

lemma add_receiver_trace:
  "trace (add_receiver r w) = trace w @
     [Log DEBUG (''Adding receiver to UI: '' @ list_entry_name r),
      Log DEBUG (''Added receiver to deviceSelectList: '' @ [CHR 39] @ name r @ [CHR 39])]"
  by (simp add: add_receiver_def emit_def Let_def)

lemma remove_receiver_trace:
  "trace (remove_receiver r w) = trace w @
     replicate (length (findItems (list_entry_name r) (deviceSelectList w)))
       (Log DEBUG (''Removed receiver from deviceSelectList: '' @ [CHR 39] @ name r @ [CHR 39]))"
  by (simp add: remove_receiver_def fold_remove_step_trace)





text \<open>
  C8. \<^verbatim>\<open>remove_receiver\<close> matches by displayed text, not by receiver: what it leaves is the
  list without every entry whose text equals the receiver's \<^verbatim>\<open>list_entry_name\<close>,
  whatever receiver the entry carries. So the entry of another receiver \<open>r'\<close> of the same
  display name is taken out with it.
\<close>

theorem remove_receiver_by_displayed_name:
  "deviceSelectList (remove_receiver r w) =
     filter (\<lambda>x. item_text x \<noteq> list_entry_name r) (deviceSelectList w)
   \<and> (list_entry_name r' = list_entry_name r \<longrightarrow>
        entry r' \<notin> set (deviceSelectList (remove_receiver r w)))"
  by (simp add: remove_receiver_list entry_def)

theorem remove_receiver_by_displayed_name_witness:
  "living_room_twin \<noteq> living_room
   \<and> list_entry_name living_room_twin = list_entry_name living_room
   \<and> entry living_room_twin \<in> set (deviceSelectList (add_receiver living_room_twin started_window))
   \<and> entry living_room_twin \<notin> set (deviceSelectList
        (remove_receiver living_room (add_receiver living_room_twin started_window)))
   \<and> deviceSelectList (remove_receiver living_room (add_receiver living_room_twin started_window))
       = [sentinel, entry bedroom]"
proof -
  have names: "list_entry_name living_room_twin = list_entry_name living_room"
    by (simp add: living_room_twin_def living_room_def)
  have l: "deviceSelectList (add_receiver living_room_twin started_window)
     = [sentinel, entry living_room, entry bedroom, entry living_room_twin]"
    by (simp add: started_window_def add_receiver_list run_forever_def Window_init_list)
  note claim = remove_receiver_by_displayed_name
    [of living_room "add_receiver living_room_twin started_window" living_room_twin]
  from claim have eq:
    "deviceSelectList (remove_receiver living_room (add_receiver living_room_twin started_window))
       = filter (\<lambda>x. item_text x \<noteq> list_entry_name living_room)
           (deviceSelectList (add_receiver living_room_twin started_window))"
    by (rule conjunct1)
  from claim names have gone: "entry living_room_twin \<notin> set (deviceSelectList
        (remove_receiver living_room (add_receiver living_room_twin started_window)))"
    by blast
  have "deviceSelectList (remove_receiver living_room (add_receiver living_room_twin started_window))
       = [sentinel, entry bedroom]"
    unfolding eq l
    by (simp add: sentinel_def entry_def living_room_def bedroom_def living_room_twin_def
        AIRPLAY_NO_DISPLAY_NAME_def)
  moreover have "living_room_twin \<noteq> living_room"
    by (simp add: living_room_twin_def living_room_def)
  ultimately show ?thesis using names gone l by simp
qed

text \<open>
  C6. A receiver that is added and then removed at once is gone from the list: where every
  entry displays its receiver's name, \<^verbatim>\<open>remove_receiver r\<close> after \<^verbatim>\<open>add_receiver r\<close>
  leaves the entries of the list before whose text is not the name of \<open>r\<close>, none of them
  carries \<open>r\<close>, every entry still displays its receiver's name, and the trace shows the
  addition first and then the removals, one for each entry of that name, the added one
  included.
\<close>

theorem add_then_remove_receiver:
  assumes "entries_named (deviceSelectList w)"
  shows "deviceSelectList (remove_receiver r (add_receiver r w)) =
           filter (\<lambda>x. item_text x \<noteq> list_entry_name r) (deviceSelectList w)
     \<and> Some r \<notin> item_data ` set (deviceSelectList (remove_receiver r (add_receiver r w)))
     \<and> entries_named (deviceSelectList (remove_receiver r (add_receiver r w)))
     \<and> trace (remove_receiver r (add_receiver r w)) = trace w @
           [Log DEBUG (''Adding receiver to UI: '' @ list_entry_name r),
            Log DEBUG (''Added receiver to deviceSelectList: '' @ [CHR 39] @ name r @ [CHR 39])] @
           replicate (Suc (length (findItems (list_entry_name r) (deviceSelectList w))))
             (Log DEBUG (''Removed receiver from deviceSelectList: '' @ [CHR 39] @ name r @ [CHR 39]))"
proof -
  have eq: "deviceSelectList (remove_receiver r (add_receiver r w)) =
           filter (\<lambda>x. item_text x \<noteq> list_entry_name r) (deviceSelectList w)"
    by (simp add: remove_receiver_list add_receiver_list entry_def)
  have named: "entries_named (deviceSelectList (remove_receiver r (add_receiver r w)))"
    unfolding eq using assms by (rule entries_named_filter)
  have absent: "Some r \<notin> item_data ` set (deviceSelectList (remove_receiver r (add_receiver r w)))"
  proof
    assume "Some r \<in> item_data ` set (deviceSelectList (remove_receiver r (add_receiver r w)))"
    then obtain x where x: "x \<in> set (deviceSelectList (remove_receiver r (add_receiver r w)))"
      and d: "item_data x = Some r" by auto
    from entries_named_data [OF named x d] have "item_text x = list_entry_name r" .
    with x show False unfolding eq by simp
  qed
  have tr: "trace (remove_receiver r (add_receiver r w)) = trace w @
           [Log DEBUG (''Adding receiver to UI: '' @ list_entry_name r),
            Log DEBUG (''Added receiver to deviceSelectList: '' @ [CHR 39] @ name r @ [CHR 39])] @
           replicate (Suc (length (findItems (list_entry_name r) (deviceSelectList w))))
             (Log DEBUG (''Removed receiver from deviceSelectList: '' @ [CHR 39] @ name r @ [CHR 39]))"
    by (simp add: remove_receiver_trace add_receiver_trace add_receiver_list findItems_def entry_def)
  from eq absent named tr show ?thesis by blast
qed

theorem add_then_remove_receiver_witness:
  "entries_named (deviceSelectList started_window)
   \<and> deviceSelectList (remove_receiver no_display_tv (add_receiver no_display_tv
        (remove_receiver bedroom started_window))) = [entry living_room]
   \<and> deviceSelectList (remove_receiver bedroom (add_receiver bedroom started_window))
       = [sentinel, entry living_room]
   \<and> Some bedroom \<notin> item_data ` set (deviceSelectList
        (remove_receiver bedroom (add_receiver bedroom started_window)))"
proof -
  have l: "deviceSelectList started_window = [sentinel, entry living_room, entry bedroom]"
    by (simp add: started_window_def add_receiver_list run_forever_def Window_init_list)
  have named: "entries_named (deviceSelectList started_window)"
    unfolding l by (simp add: entries_named_def sentinel_def entry_def)
  note claim = add_then_remove_receiver [OF named, of bedroom]
  from claim have eq: "deviceSelectList (remove_receiver bedroom (add_receiver bedroom started_window))
      = filter (\<lambda>x. item_text x \<noteq> list_entry_name bedroom) (deviceSelectList started_window)"
    by (rule conjunct1)
  from claim have absent: "Some bedroom \<notin> item_data ` set (deviceSelectList
        (remove_receiver bedroom (add_receiver bedroom started_window)))"
    by blast
  have res: "deviceSelectList (remove_receiver bedroom (add_receiver bedroom started_window))
       = [sentinel, entry living_room]"
    unfolding eq l
    by (simp add: sentinel_def entry_def living_room_def bedroom_def AIRPLAY_NO_DISPLAY_NAME_def)
  have l2: "deviceSelectList (remove_receiver bedroom started_window) = [sentinel, entry living_room]"
    unfolding remove_receiver_list l
    by (simp add: sentinel_def entry_def living_room_def bedroom_def AIRPLAY_NO_DISPLAY_NAME_def)
  have named2: "entries_named (deviceSelectList (remove_receiver bedroom started_window))"
    unfolding l2 by (simp add: entries_named_def sentinel_def entry_def)
  from add_then_remove_receiver [OF named2, of no_display_tv]
  have "deviceSelectList (remove_receiver no_display_tv (add_receiver no_display_tv
        (remove_receiver bedroom started_window)))
      = filter (\<lambda>x. item_text x \<noteq> list_entry_name no_display_tv)
          (deviceSelectList (remove_receiver bedroom started_window))"
    by (rule conjunct1)
  then have res2: "deviceSelectList (remove_receiver no_display_tv (add_receiver no_display_tv
        (remove_receiver bedroom started_window))) = [entry living_room]"
    unfolding l2
    by (simp add: sentinel_def entry_def living_room_def no_display_tv_def AIRPLAY_NO_DISPLAY_NAME_def)
  from named res2 res absent show ?thesis by blast
qed

subsection \<open>Evaluating the methods\<close>

lemmas window_defs = Window_init_def and_then_def createIconGroupBox_def blank_def emit_def
  createDeviceListGroupBox_def trayIconVisible_def Let_def run_forever_def add_receiver_def
  value_bool_def store0_def str_bool_def

lemma started_window_eq:
  "started_window =
    \<lparr>settings = Some store0, showIconCheckBox = True, systrayClosePromptCheckBox = True,
     trayIcon_visible = True, deviceSelectList = [sentinel, entry living_room, entry bedroom],
     service_listener = Some True, active_mirroring_client = None, active_mirroring = None,
     pending = [], event_loop = True, loop_running = True, loop_stop_requested = False,
     trace = trace started_window\<rparr>"
  by (simp add: started_window_def window_defs sentinel_def entry_def)

lemma start_single:
  assumes "i < length (deviceSelectList w)"
    and "item_text (deviceSelectList w ! i) \<noteq> AIRPLAY_NO_DISPLAY_NAME"
    and "event_loop w"
  shows "start_mirroring_to_selection [i] w =
    (Returned,
     w\<lparr>active_mirroring_client := Some (OpenAirPlayMirroringClient (item_data (deviceSelectList w ! i))),
       active_mirroring := Some (MirroringClientStart (OpenAirPlayMirroringClient (item_data (deviceSelectList w ! i)))),
       pending := pending w @ [MirroringClientStart (OpenAirPlayMirroringClient (item_data (deviceSelectList w ! i)))],
       trace := trace w @
         [Log INFO (''Starting mirroring to '' @ item_text (deviceSelectList w ! i) @ '' ...''),
          EnsureFuture (MirroringClientStart (OpenAirPlayMirroringClient (item_data (deviceSelectList w ! i))))]\<rparr>)"
  using assms
  by (simp add: start_mirroring_to_selection_def item_def emit_def ensure_future_def Let_def)

lemma start_single_no_loop:
  assumes "i < length (deviceSelectList w)"
    and "item_text (deviceSelectList w ! i) \<noteq> AIRPLAY_NO_DISPLAY_NAME"
    and "\<not> event_loop w"
  shows "start_mirroring_to_selection [i] w =
    (Raised RuntimeError,
     w\<lparr>active_mirroring_client := Some (OpenAirPlayMirroringClient (item_data (deviceSelectList w ! i))),
       trace := trace w @
         [Log INFO (''Starting mirroring to '' @ item_text (deviceSelectList w ! i) @ '' ...'')]\<rparr>)"
  using assms
  by (simp add: start_mirroring_to_selection_def item_def emit_def ensure_future_def Let_def)

lemma start_sentinel_text:
  assumes "i < length (deviceSelectList w)"
    and "item_text (deviceSelectList w ! i) = AIRPLAY_NO_DISPLAY_NAME"
  shows "start_mirroring_to_selection [i] w =
    (Returned, w\<lparr>trace := trace w @ [Log WARN ''TODO: no display -> stop'']\<rparr>)"
  using assms
  by (simp add: start_mirroring_to_selection_def item_def emit_def Let_def)

lemma start_none:
  "start_mirroring_to_selection [] w =
    (Returned, w\<lparr>trace := trace w @ [Log WARN ''Select a device to mirror to.'']\<rparr>)"
  by (simp add: start_mirroring_to_selection_def emit_def)

lemma start_many:
  "1 < length selected \<Longrightarrow> start_mirroring_to_selection selected w =
    (Raised (NotImplementedError ''Cannot mirror to more than one display.''),
     w\<lparr>trace := trace w @ [Log ERROR ''Mirroring to more than one display not supported'']\<rparr>)"
  by (simp add: start_mirroring_to_selection_def emit_def)

lemma quit_ready:
  assumes "settings w = Some s" and "service_listener w = Some started"
    and "event_loop w" and "loop_running w"
  shows "quit reason w =
     (Raised (SystemExit reason),
      w\<lparr>settings := None, pending := pending w @ [ServiceListenerQuit],
        loop_stop_requested := True,
        trace := trace w @ [EnsureFuture ServiceListenerQuit, LoopStop]\<rparr>)"
  using assms by (simp add: quit_def ensure_future_def emit_def Let_def)

lemma started_window_fields:
  "settings started_window = Some store0"
  "deviceSelectList started_window = [sentinel, entry living_room, entry bedroom]"
  "service_listener started_window = Some True"
  "active_mirroring_client started_window = None"
  "active_mirroring started_window = None"
  "pending started_window = []"
  "event_loop started_window"
  "loop_running started_window"
  "\<not> loop_stop_requested started_window"
  by (subst started_window_eq, simp)+

lemma start_row_1:
  "start_mirroring_to_selection [1] started_window =
    (Returned,
     started_window\<lparr>
       active_mirroring_client := Some (OpenAirPlayMirroringClient (Some living_room)),
       active_mirroring := Some (MirroringClientStart (OpenAirPlayMirroringClient (Some living_room))),
       pending := [MirroringClientStart (OpenAirPlayMirroringClient (Some living_room))],
       trace := trace started_window @
         [Log INFO ''Starting mirroring to Living Room ...'',
          EnsureFuture (MirroringClientStart (OpenAirPlayMirroringClient (Some living_room)))]\<rparr>)"
proof -
  have i: "1 < length (deviceSelectList started_window)"
    by (simp add: started_window_fields)
  have t: "item_text (deviceSelectList started_window ! 1) \<noteq> AIRPLAY_NO_DISPLAY_NAME"
    by (simp add: started_window_fields entry_def living_room_def AIRPLAY_NO_DISPLAY_NAME_def)
  have d: "item_data (deviceSelectList started_window ! 1) = Some living_room"
    and n: "item_text (deviceSelectList started_window ! 1) = ''Living Room''"
    by (simp_all add: started_window_fields entry_def living_room_def)
  note run = start_single [OF i t started_window_fields(7)]
  show ?thesis
    unfolding run d n by (simp add: started_window_fields(6))
qed

lemma mirroring_window_fields:
  "settings mirroring_window = Some store0"
  "deviceSelectList mirroring_window = [sentinel, entry living_room, entry bedroom]"
  "service_listener mirroring_window = Some True"
  "active_mirroring_client mirroring_window = Some (OpenAirPlayMirroringClient (Some living_room))"
  "active_mirroring mirroring_window
     = Some (MirroringClientStart (OpenAirPlayMirroringClient (Some living_room)))"
  "pending mirroring_window = [MirroringClientStart (OpenAirPlayMirroringClient (Some living_room))]"
  "event_loop mirroring_window"
  "loop_running mirroring_window"
  "\<not> loop_stop_requested mirroring_window"
  unfolding mirroring_window_def start_row_1 by (simp_all add: started_window_fields)

lemma loopless_window_fields:
  "deviceSelectList loopless_window = [sentinel, entry living_room]"
  "active_mirroring_client loopless_window = None"
  "active_mirroring loopless_window = None"
  "pending loopless_window = []"
  "\<not> event_loop loopless_window"
  by (simp_all add: loopless_window_def window_defs sentinel_def entry_def)

subsection \<open>Starting while a session exists\<close>

text \<open>
  C1, as stated, fails. The window mirrors to the Living Room; the user selects row 2, the
  Bedroom, and presses the button. The call returns normally, the active client is a new
  one for the Bedroom, and the event loop holds the start of both clients.
\<close>

theorem second_start_replaces_session:
  "session_exists mirroring_window
   \<and> active_mirroring_client mirroring_window = Some (OpenAirPlayMirroringClient (Some living_room))
   \<and> item (deviceSelectList mirroring_window) 2 = Some (entry bedroom)
   \<and> fst (start_mirroring_to_selection [2] mirroring_window) = Returned
   \<and> active_mirroring_client (snd (start_mirroring_to_selection [2] mirroring_window))
       = Some (OpenAirPlayMirroringClient (Some bedroom))
   \<and> pending (snd (start_mirroring_to_selection [2] mirroring_window))
       = [MirroringClientStart (OpenAirPlayMirroringClient (Some living_room)),
          MirroringClientStart (OpenAirPlayMirroringClient (Some bedroom))]
   \<and> snd (start_mirroring_to_selection [2] mirroring_window) \<noteq> mirroring_window"
proof -
  note f = mirroring_window_fields
  have i: "2 < length (deviceSelectList mirroring_window)"
    by (simp add: f)
  have t: "item_text (deviceSelectList mirroring_window ! 2) \<noteq> AIRPLAY_NO_DISPLAY_NAME"
    by (simp add: f entry_def bedroom_def AIRPLAY_NO_DISPLAY_NAME_def)
  have d: "item_data (deviceSelectList mirroring_window ! 2) = Some bedroom"
    by (simp add: f entry_def)
  have differ: "OpenAirPlayMirroringClient (Some bedroom) \<noteq> OpenAirPlayMirroringClient (Some living_room)"
    by (simp add: bedroom_def living_room_def)
  note run = start_single [OF i t f(7)]
  have "active_mirroring_client (snd (start_mirroring_to_selection [2] mirroring_window))
       = Some (OpenAirPlayMirroringClient (Some bedroom))"
    by (simp add: run d)
  moreover from this f(4) differ
  have "snd (start_mirroring_to_selection [2] mirroring_window) \<noteq> mirroring_window"
    by auto
  moreover have "pending (snd (start_mirroring_to_selection [2] mirroring_window))
       = [MirroringClientStart (OpenAirPlayMirroringClient (Some living_room)),
          MirroringClientStart (OpenAirPlayMirroringClient (Some bedroom))]"
    unfolding run d by (simp add: f)
  moreover have "fst (start_mirroring_to_selection [2] mirroring_window) = Returned"
    by (simp add: run)
  moreover have "item (deviceSelectList mirroring_window) 2 = Some (entry bedroom)"
    by (simp add: f item_def)
  moreover have "session_exists mirroring_window"
    by (simp add: session_exists_def f)
  ultimately show ?thesis using f(4) by blast
qed

text \<open>
  C1, amended. With one row selected whose entry does not display ``No display.'',
  \<^verbatim>\<open>start_mirroring_to_selection\<close> does the same whether or not a session exists: it
  logs, makes a new mirroring client for what the entry carries and stores it as the
  active client in place of any earlier one. With a current event loop it then gives the
  client's start to the loop, after the tasks that are pending already, keeps that task as
  the active mirroring and returns normally. Without one \<^verbatim>\<open>ensure_future\<close> raises
  \<^verbatim>\<open>RuntimeError\<close>: no task is scheduled and the active mirroring is what it was.
  Nothing else of the window changes.
\<close>

theorem start_replaces_any_session:
  assumes "i < length (deviceSelectList w)"
    and "item_text (deviceSelectList w ! i) \<noteq> AIRPLAY_NO_DISPLAY_NAME"
  shows "start_mirroring_to_selection [i] w =
    (if event_loop w then
       (Returned,
        w\<lparr>active_mirroring_client := Some (OpenAirPlayMirroringClient (item_data (deviceSelectList w ! i))),
          active_mirroring := Some (MirroringClientStart (OpenAirPlayMirroringClient (item_data (deviceSelectList w ! i)))),
          pending := pending w @ [MirroringClientStart (OpenAirPlayMirroringClient (item_data (deviceSelectList w ! i)))],
          trace := trace w @
            [Log INFO (''Starting mirroring to '' @ item_text (deviceSelectList w ! i) @ '' ...''),
             EnsureFuture (MirroringClientStart (OpenAirPlayMirroringClient (item_data (deviceSelectList w ! i))))]\<rparr>)
     else
       (Raised RuntimeError,
        w\<lparr>active_mirroring_client := Some (OpenAirPlayMirroringClient (item_data (deviceSelectList w ! i))),
          trace := trace w @
            [Log INFO (''Starting mirroring to '' @ item_text (deviceSelectList w ! i) @ '' ...'')]\<rparr>))"
proof (cases "event_loop w")
  case True
  with start_single [OF assms True] show ?thesis by simp
next
  case False
  with start_single_no_loop [OF assms False] show ?thesis by simp
qed

theorem start_replaces_any_session_witness:
  "session_exists mirroring_window
   \<and> 2 < length (deviceSelectList mirroring_window)
   \<and> item_text (deviceSelectList mirroring_window ! 2) \<noteq> AIRPLAY_NO_DISPLAY_NAME
   \<and> event_loop mirroring_window
   \<and> start_mirroring_to_selection [2] mirroring_window =
      (Returned,
       mirroring_window\<lparr>
         active_mirroring_client := Some (OpenAirPlayMirroringClient (Some bedroom)),
         active_mirroring := Some (MirroringClientStart (OpenAirPlayMirroringClient (Some bedroom))),
         pending := [MirroringClientStart (OpenAirPlayMirroringClient (Some living_room)),
                     MirroringClientStart (OpenAirPlayMirroringClient (Some bedroom))],
         trace := trace mirroring_window @
           [Log INFO ''Starting mirroring to Bedroom ...'',
            EnsureFuture (MirroringClientStart (OpenAirPlayMirroringClient (Some bedroom)))]\<rparr>)
   \<and> 1 < length (deviceSelectList loopless_window)
   \<and> item_text (deviceSelectList loopless_window ! 1) \<noteq> AIRPLAY_NO_DISPLAY_NAME
   \<and> \<not> event_loop loopless_window
   \<and> start_mirroring_to_selection [1] loopless_window =
      (Raised RuntimeError,
       loopless_window\<lparr>
         active_mirroring_client := Some (OpenAirPlayMirroringClient (Some living_room)),
         trace := trace loopless_window @ [Log INFO ''Starting mirroring to Living Room ...'']\<rparr>)
   \<and> active_mirroring (snd (start_mirroring_to_selection [1] loopless_window)) = None
   \<and> pending (snd (start_mirroring_to_selection [1] loopless_window)) = []"
proof -
  note f = mirroring_window_fields and g = loopless_window_fields
  have i: "2 < length (deviceSelectList mirroring_window)"
    by (simp add: f)
  have t: "item_text (deviceSelectList mirroring_window ! 2) \<noteq> AIRPLAY_NO_DISPLAY_NAME"
    by (simp add: f entry_def bedroom_def AIRPLAY_NO_DISPLAY_NAME_def)
  have d: "item_data (deviceSelectList mirroring_window ! 2) = Some bedroom"
    and n: "item_text (deviceSelectList mirroring_window ! 2) = ''Bedroom''"
    by (simp_all add: f entry_def bedroom_def)
  have s: "session_exists mirroring_window"
    by (simp add: session_exists_def f)
  have j: "1 < length (deviceSelectList loopless_window)"
    by (simp add: g)
  have u: "item_text (deviceSelectList loopless_window ! 1) \<noteq> AIRPLAY_NO_DISPLAY_NAME"
    by (simp add: g entry_def living_room_def AIRPLAY_NO_DISPLAY_NAME_def)
  have e: "item_data (deviceSelectList loopless_window ! 1) = Some living_room"
    and m: "item_text (deviceSelectList loopless_window ! 1) = ''Living Room''"
    by (simp_all add: g entry_def living_room_def)
  have with_loop: "start_mirroring_to_selection [2] mirroring_window =
      (Returned,
       mirroring_window\<lparr>
         active_mirroring_client := Some (OpenAirPlayMirroringClient (Some bedroom)),
         active_mirroring := Some (MirroringClientStart (OpenAirPlayMirroringClient (Some bedroom))),
         pending := [MirroringClientStart (OpenAirPlayMirroringClient (Some living_room)),
                     MirroringClientStart (OpenAirPlayMirroringClient (Some bedroom))],
         trace := trace mirroring_window @
           [Log INFO ''Starting mirroring to Bedroom ...'',
            EnsureFuture (MirroringClientStart (OpenAirPlayMirroringClient (Some bedroom)))]\<rparr>)"
    using start_replaces_any_session [OF i t] unfolding d n by (simp add: f)
  have without: "start_mirroring_to_selection [1] loopless_window =
      (Raised RuntimeError,
       loopless_window\<lparr>
         active_mirroring_client := Some (OpenAirPlayMirroringClient (Some living_room)),
         trace := trace loopless_window @ [Log INFO ''Starting mirroring to Living Room ...'']\<rparr>)"
    using start_replaces_any_session [OF j u] unfolding e m by (simp add: g)
  have rest: "active_mirroring (snd (start_mirroring_to_selection [1] loopless_window)) = None"
    "pending (snd (start_mirroring_to_selection [1] loopless_window)) = []"
    unfolding without by (simp_all add: g)
  from s i t f(7) with_loop j u g(5) without rest show ?thesis by blast
qed

subsection \<open>Selections of no row or of several rows\<close>

text \<open>
  C3, as stated, fails: with rows 1 and 2 selected the call does not return; it raises
  \<^verbatim>\<open>NotImplementedError\<close>.
\<close>

theorem two_selected_raises:
  "start_mirroring_to_selection [1, 2] started_window =
     (Raised (NotImplementedError ''Cannot mirror to more than one display.''),
      started_window\<lparr>trace := trace started_window @
         [Log ERROR ''Mirroring to more than one display not supported'']\<rparr>)
   \<and> fst (start_mirroring_to_selection [1, 2] started_window) \<noteq> Returned"
  by (simp add: start_many)

text \<open>
  C3, amended. With more than one row selected, \<^verbatim>\<open>start_mirroring_to_selection\<close> logs
  an error and raises \<^verbatim>\<open>NotImplementedError\<close>; it makes no session, and but for the log
  record the window is what it was.
\<close>

theorem many_selected_raises_state_kept:
  assumes "1 < length selected"
  shows "start_mirroring_to_selection selected w =
     (Raised (NotImplementedError ''Cannot mirror to more than one display.''),
      w\<lparr>trace := trace w @ [Log ERROR ''Mirroring to more than one display not supported'']\<rparr>)
   \<and> (snd (start_mirroring_to_selection selected w))\<lparr>trace := trace w\<rparr> = w
   \<and> session_exists (snd (start_mirroring_to_selection selected w)) = session_exists w"
  using assms by (simp add: start_many session_exists_def)

theorem many_selected_raises_state_kept_witness:
  "1 < length [1, 2 :: nat]
   \<and> fst (start_mirroring_to_selection [1, 2] started_window)
       = Raised (NotImplementedError ''Cannot mirror to more than one display.'')
   \<and> (snd (start_mirroring_to_selection [1, 2] started_window))\<lparr>trace := trace started_window\<rparr>
       = started_window
   \<and> \<not> session_exists (snd (start_mirroring_to_selection [1, 2] started_window))"
proof -
  have n: "1 < length [1, 2 :: nat]" by simp
  have "\<not> session_exists started_window"
    by (simp add: session_exists_def started_window_fields)
  with many_selected_raises_state_kept [OF n, of started_window] n show ?thesis
    by (simp add: session_exists_def)
qed

text \<open>
  C5. With no row or with two or more rows selected, \<^verbatim>\<open>start_mirroring_to_selection\<close>
  makes no session: the active client and its task are what they were, the event loop is
  given no task, and all the call adds to the trace is one log record.
\<close>

theorem no_session_unless_one_selected:
  assumes "length selected \<noteq> 1"
  shows "active_mirroring_client (snd (start_mirroring_to_selection selected w)) = active_mirroring_client w
   \<and> active_mirroring (snd (start_mirroring_to_selection selected w)) = active_mirroring w
   \<and> pending (snd (start_mirroring_to_selection selected w)) = pending w
   \<and> (\<exists>lv msg. trace (snd (start_mirroring_to_selection selected w)) = trace w @ [Log lv msg])"
proof (cases selected)
  case Nil
  then show ?thesis by (simp add: start_none)
next
  case (Cons i rest)
  with assms have "1 < length selected" by (cases rest) simp_all
  then show ?thesis by (simp add: start_many)
qed

theorem no_session_unless_one_selected_witness:
  "length ([] :: nat list) \<noteq> 1 \<and> length [1, 2 :: nat] \<noteq> 1
   \<and> active_mirroring_client (snd (start_mirroring_to_selection [] started_window)) = None
   \<and> pending (snd (start_mirroring_to_selection [] started_window)) = []
   \<and> active_mirroring_client (snd (start_mirroring_to_selection [1, 2] started_window)) = None
   \<and> pending (snd (start_mirroring_to_selection [1, 2] started_window)) = []"
proof -
  have zero: "length ([] :: nat list) \<noteq> 1" and two: "length [1, 2 :: nat] \<noteq> 1"
    by simp_all
  have c: "active_mirroring_client started_window = None" and p: "pending started_window = []"
    by (simp_all add: started_window_fields)
  from no_session_unless_one_selected [OF zero, of started_window]
    no_session_unless_one_selected [OF two, of started_window] zero two
  show ?thesis by (simp add: c p)
qed

subsection \<open>Selecting an entry that displays ``No display.''\<close>

text \<open>
  C4. While the window mirrors to the Living Room the user selects row 0, the entry
  ``No display.'', and presses the button: the call logs a warning and returns. The active
  client and its pending task are as before; nothing is stopped.
\<close>

theorem sentinel_selected_session_kept:
  "item (deviceSelectList mirroring_window) 0 = Some sentinel
   \<and> session_exists mirroring_window
   \<and> start_mirroring_to_selection [0] mirroring_window =
       (Returned, mirroring_window\<lparr>trace := trace mirroring_window @ [Log WARN ''TODO: no display -> stop'']\<rparr>)
   \<and> active_mirroring_client (snd (start_mirroring_to_selection [0] mirroring_window))
       = Some (OpenAirPlayMirroringClient (Some living_room))
   \<and> pending (snd (start_mirroring_to_selection [0] mirroring_window))
       = [MirroringClientStart (OpenAirPlayMirroringClient (Some living_room))]"
proof -
  have l: "deviceSelectList mirroring_window = [sentinel, entry living_room, entry bedroom]"
    by (simp add: mirroring_window_fields)
  have c: "active_mirroring_client mirroring_window = Some (OpenAirPlayMirroringClient (Some living_room))"
    by (simp add: mirroring_window_fields)
  have p: "pending mirroring_window = [MirroringClientStart (OpenAirPlayMirroringClient (Some living_room))]"
    by (simp add: mirroring_window_fields)
  have i: "0 < length (deviceSelectList mirroring_window)"
    unfolding l by simp
  have t: "item_text (deviceSelectList mirroring_window ! 0) = AIRPLAY_NO_DISPLAY_NAME"
    unfolding l by (simp add: sentinel_def)
  have "item (deviceSelectList mirroring_window) 0 = Some sentinel"
    unfolding l by (simp add: item_def)
  moreover have "session_exists mirroring_window"
    by (simp add: session_exists_def c)
  ultimately show ?thesis
    by (simp add: start_sentinel_text [OF i t] c p)
qed

text \<open>
  C10. The test for ``No display.'' looks at the entry's text. When the selected row is the
  entry of a discovered receiver whose \<^verbatim>\<open>list_entry_name\<close> is that text, the call takes
  the branch of the first list entry: it logs the warning and returns, and no client is
  made for the receiver, no task scheduled.
\<close>

theorem receiver_named_like_sentinel_not_started:
  assumes "i < length (deviceSelectList w)"
    and "deviceSelectList w ! i = entry r"
    and "list_entry_name r = AIRPLAY_NO_DISPLAY_NAME"
  shows "start_mirroring_to_selection [i] w =
      (Returned, w\<lparr>trace := trace w @ [Log WARN ''TODO: no display -> stop'']\<rparr>)
    \<and> active_mirroring_client (snd (start_mirroring_to_selection [i] w)) = active_mirroring_client w
    \<and> pending (snd (start_mirroring_to_selection [i] w)) = pending w"
proof -
  from assms(2,3) have "item_text (deviceSelectList w ! i) = AIRPLAY_NO_DISPLAY_NAME"
    by (simp add: entry_def)
  with assms(1) show ?thesis by (simp add: start_sentinel_text)
qed

theorem receiver_named_like_sentinel_not_started_witness:
  "3 < length (deviceSelectList (add_receiver no_display_tv started_window))
   \<and> deviceSelectList (add_receiver no_display_tv started_window) ! 3 = entry no_display_tv
   \<and> item_data (entry no_display_tv) = Some no_display_tv
   \<and> list_entry_name no_display_tv = AIRPLAY_NO_DISPLAY_NAME
   \<and> fst (start_mirroring_to_selection [3] (add_receiver no_display_tv started_window)) = Returned
   \<and> active_mirroring_client
        (snd (start_mirroring_to_selection [3] (add_receiver no_display_tv started_window))) = None
   \<and> pending (snd (start_mirroring_to_selection [3] (add_receiver no_display_tv started_window))) = []"
proof -
  have l: "deviceSelectList (add_receiver no_display_tv started_window)
      = [sentinel, entry living_room, entry bedroom, entry no_display_tv]"
    by (simp add: add_receiver_list started_window_fields)
  have i: "3 < length (deviceSelectList (add_receiver no_display_tv started_window))"
    unfolding l by simp
  have e: "deviceSelectList (add_receiver no_display_tv started_window) ! 3 = entry no_display_tv"
    unfolding l by simp
  have n: "list_entry_name no_display_tv = AIRPLAY_NO_DISPLAY_NAME"
    by (simp add: no_display_tv_def AIRPLAY_NO_DISPLAY_NAME_def)
  have c: "active_mirroring_client (add_receiver no_display_tv started_window) = None"
    and p: "pending (add_receiver no_display_tv started_window) = []"
    by (simp_all add: add_receiver_def emit_def Let_def started_window_fields)
  from receiver_named_like_sentinel_not_started [OF i e n] i e n show ?thesis
    by (simp add: c p entry_def)
qed


subsection \<open>Shutdown\<close>

lemma quit_session_kept:
  "active_mirroring_client (snd (quit reason w)) = active_mirroring_client w
   \<and> active_mirroring (snd (quit reason w)) = active_mirroring w"
  by (simp add: quit_def ensure_future_def emit_def Let_def split: option.split)

lemma quit_pending_kept: "\<exists>ts. pending (snd (quit reason w)) = pending w @ ts"
  by (simp add: quit_def ensure_future_def emit_def Let_def split: option.split)

lemma quit_raises: "fst (quit reason w) \<noteq> Returned"
  by (simp add: quit_def ensure_future_def emit_def Let_def split: option.split)

text \<open>
  C2, as stated, fails. \<^verbatim>\<open>quit(0)\<close> while the window mirrors to the Living Room: when it
  leaves (by \<^verbatim>\<open>SystemExit\<close>) the start of the mirroring client and the listener's
  \<^verbatim>\<open>quit()\<close> are both still pending on the event loop, the client is still the active
  one, and the loop has been told to stop.
\<close>

theorem quit_leaves_tasks_pending:
  "fst (quit 0 mirroring_window) = Raised (SystemExit 0)
   \<and> pending (snd (quit 0 mirroring_window))
       = [MirroringClientStart (OpenAirPlayMirroringClient (Some living_room)), ServiceListenerQuit]
   \<and> active_mirroring_client (snd (quit 0 mirroring_window))
       = Some (OpenAirPlayMirroringClient (Some living_room))
   \<and> service_listener (snd (quit 0 mirroring_window)) = Some True
   \<and> loop_stop_requested (snd (quit 0 mirroring_window))"
proof -
  note f = mirroring_window_fields
  show ?thesis by (simp add: quit_ready [OF f(1) f(3) f(7) f(8)] f)
qed

text \<open>
  C2, amended. In no state does \<^verbatim>\<open>quit\<close> ask a mirroring session to stop: when the call
  leaves, which it never does by returning, the active client and its task are what they
  were and every task that was pending is pending still. Where the settings attribute and
  the listener exist and the event loop is current and running, telling the loop to stop
  is the last thing \<^verbatim>\<open>quit\<close> does to the outside before it leaves by \<^verbatim>\<open>SystemExit\<close>
  with the reason.
\<close>

theorem quit_asks_no_session_to_stop:
  "active_mirroring_client (snd (quit reason w)) = active_mirroring_client w
   \<and> active_mirroring (snd (quit reason w)) = active_mirroring w
   \<and> (\<exists>ts. pending (snd (quit reason w)) = pending w @ ts)
   \<and> fst (quit reason w) \<noteq> Returned
   \<and> (settings w \<noteq> None \<and> service_listener w \<noteq> None \<and> event_loop w \<and> loop_running w \<longrightarrow>
        fst (quit reason w) = Raised (SystemExit reason)
        \<and> loop_stop_requested (snd (quit reason w))
        \<and> (\<exists>es. trace (snd (quit reason w)) = trace w @ es @ [LoopStop]))"
proof -
  have "fst (quit reason w) = Raised (SystemExit reason)
        \<and> loop_stop_requested (snd (quit reason w))
        \<and> (\<exists>es. trace (snd (quit reason w)) = trace w @ es @ [LoopStop])"
    if ready: "settings w \<noteq> None" "service_listener w \<noteq> None" "event_loop w" "loop_running w"
  proof -
    from ready obtain s started where "settings w = Some s" "service_listener w = Some started"
      by auto
    from quit_ready [OF this ready(3,4)] show ?thesis by simp
  qed
  with quit_session_kept [of reason w] quit_pending_kept [of reason w] quit_raises [of reason w]
  show ?thesis by blast
qed

theorem quit_asks_no_session_to_stop_witness:
  "settings mirroring_window \<noteq> None
   \<and> service_listener mirroring_window \<noteq> None
   \<and> event_loop mirroring_window
   \<and> loop_running mirroring_window
   \<and> fst (quit 0 mirroring_window) = Raised (SystemExit 0)
   \<and> loop_stop_requested (snd (quit 0 mirroring_window))
   \<and> active_mirroring_client (snd (quit 0 mirroring_window))
       = Some (OpenAirPlayMirroringClient (Some living_room))
   \<and> active_mirroring (snd (quit 0 mirroring_window))
       = Some (MirroringClientStart (OpenAirPlayMirroringClient (Some living_room)))"
proof -
  note f = mirroring_window_fields
  have ready: "settings mirroring_window \<noteq> None \<and> service_listener mirroring_window \<noteq> None
      \<and> event_loop mirroring_window \<and> loop_running mirroring_window"
    by (simp add: f)
  note claim = quit_asks_no_session_to_stop [of 0 mirroring_window]
  from claim ready have "fst (quit 0 mirroring_window) = Raised (SystemExit 0)"
    and "loop_stop_requested (snd (quit 0 mirroring_window))"
    by blast+
  moreover from claim f(4,5) have "active_mirroring_client (snd (quit 0 mirroring_window))
       = Some (OpenAirPlayMirroringClient (Some living_room))"
    and "active_mirroring (snd (quit 0 mirroring_window))
       = Some (MirroringClientStart (OpenAirPlayMirroringClient (Some living_room)))"
    by simp_all
  ultimately show ?thesis using ready by blast
qed

subsection \<open>The two preferences\<close>



lemma Window_init_reads:
  "reads ''systrayicon'' (trace (snd (Window_init store loop))) = 3
   \<and> reads ''promptOnClose_systray'' (trace (snd (Window_init store loop))) = 2"
  by (simp add: Window_init_def and_then_def createIconGroupBox_def blank_def emit_def
      createDeviceListGroupBox_def trayIconVisible_def Let_def reads_def split: sum.split)

lemma Window_init_checkboxes:
  "showIconCheckBox (snd (Window_init store loop)) = value_bool store ''systrayicon''
   \<and> systrayClosePromptCheckBox (snd (Window_init store loop)) = value_bool store ''promptOnClose_systray''"
  by (simp add: Window_init_def and_then_def createIconGroupBox_def blank_def emit_def
      createDeviceListGroupBox_def trayIconVisible_def Let_def split: sum.split)

text \<open>
  C7, as stated, fails: during construction the key \<^verbatim>\<open>systrayicon\<close> is read three times
  and \<^verbatim>\<open>promptOnClose_systray\<close> twice, not once each.
\<close>

theorem startup_reads_more_than_once:
  "reads ''systrayicon'' (trace (snd (Window_init store0 (Inr ''<QEventLoop>'')))) = 3
   \<and> reads ''promptOnClose_systray'' (trace (snd (Window_init store0 (Inr ''<QEventLoop>'')))) = 2
   \<and> reads ''systrayicon'' (trace (snd (Window_init store0 (Inr ''<QEventLoop>'')))) \<noteq> 1
   \<and> reads ''promptOnClose_systray'' (trace (snd (Window_init store0 (Inr ''<QEventLoop>'')))) \<noteq> 1"
  by (simp add: Window_init_reads)

text \<open>
  C7, amended. During construction \<^verbatim>\<open>systrayicon\<close> is read three times and
  \<^verbatim>\<open>promptOnClose_systray\<close> twice, and each check box is set to the boolean that was
  read. Each toggle writes the boolean it is given, as it is, under the key of its
  preference (and \<^verbatim>\<open>trayIconVisible\<close> shows or hides the tray icon by it).
\<close>

theorem preferences_read_at_startup_written_on_toggle:
  "reads ''systrayicon'' (trace (snd (Window_init store loop))) = 3
   \<and> reads ''promptOnClose_systray'' (trace (snd (Window_init store loop))) = 2
   \<and> showIconCheckBox (snd (Window_init store loop)) = value_bool store ''systrayicon''
   \<and> systrayClosePromptCheckBox (snd (Window_init store loop)) = value_bool store ''promptOnClose_systray''
   \<and> (settings w = Some s \<longrightarrow>
        trayIconVisible preference w =
          (Returned, w\<lparr>trayIcon_visible := preference,
                        settings := Some (s(''systrayicon'' \<mapsto> preference)),
                        trace := trace w @ [SettingsSetValue ''systrayicon'' preference]\<rparr>)
        \<and> setSystrayClosePrompt preference w =
          (Returned, w\<lparr>settings := Some (s(''promptOnClose_systray'' \<mapsto> preference)),
                        trace := trace w @ [Print (''Prompt on close is now '' @ str_bool preference),
                                            SettingsSetValue ''promptOnClose_systray'' preference]\<rparr>))"
  by (simp add: Window_init_reads Window_init_checkboxes trayIconVisible_def
      setSystrayClosePrompt_def emit_def Let_def)

theorem preferences_read_at_startup_written_on_toggle_witness:
  "settings started_window = Some store0
   \<and> fst (trayIconVisible False started_window) = Returned
   \<and> settings (snd (trayIconVisible False started_window)) = Some (store0(''systrayicon'' \<mapsto> False))
   \<and> fst (setSystrayClosePrompt False started_window) = Returned
   \<and> settings (snd (setSystrayClosePrompt False started_window))
       = Some (store0(''promptOnClose_systray'' \<mapsto> False))
   \<and> showIconCheckBox (snd (Window_init store0 (Inr ''<QEventLoop>''))) = True"
proof -
  have s: "settings started_window = Some store0"
    by (simp add: started_window_fields)
  have v: "value_bool store0 ''systrayicon'' = True"
    by (simp add: value_bool_def store0_def)
  from preferences_read_at_startup_written_on_toggle
    [of store0 "Inr ''<QEventLoop>''" started_window store0 False] s v
  show ?thesis by simp
qed

end
